theory Spec2Isabelle
  imports Main
begin

section \<open>Error values as the classifier of pkg/kgo/errors.go observes them\<close>

text \<open>
  The comparable error values that \<^verbatim>\<open>errors.Is\<close> is asked about: the package-level
  variables that errors.go declares with \<^verbatim>\<open>errors.New\<close> (internal and external), and
  the four values of Go's standard library the classifier names: \<^verbatim>\<open>io.EOF\<close>,
  \<^verbatim>\<open>net.ErrClosed\<close>, \<^verbatim>\<open>context.Canceled\<close> and \<^verbatim>\<open>context.DeadlineExceeded\<close>.
  None of them has an \<^verbatim>\<open>Unwrap\<close> or an \<^verbatim>\<open>Is\<close> method.
\<close>

datatype errval =
    errUnknownBroker
  | errChosenBrokerDead
  | errSaslReauthLoop
  | errProducerIDLoadFail
  | errCorrelationIDMismatch
  | errUnknownRequestKey
  | errBrokerTooOld
  | errNotGroup
  | errNotTransactional
  | errNotInTransaction
  | errPurged
  | ErrRecordTimeout
  | ErrRecordRetries
  | ErrMaxBuffered
  | ErrAborting
  | ErrClientClosed
  | io_EOF
  | net_ErrClosed
  | context_Canceled
  | context_DeadlineExceeded

text \<open>
  The dynamic type of an error that is not one of the values above, as far as
  \<^verbatim>\<open>errors.As\<close> in the classifier can tell: \<^verbatim>\<open>*os.SyscallError\<close>,
  \<^verbatim>\<open>*net.OpError\<close> (with its \<^verbatim>\<open>Op\<close> field), or any other type.
\<close>

datatype errtype =
    SyscallError
  | OpError string
  | OtherError

text \<open>
  A Go \<^verbatim>\<open>error\<close>: the nil interface, one of the comparable values, or an error of some
  other type. The latter carries
  \<^item> its dynamic type;
  \<^item> what its \<^verbatim>\<open>Temporary() bool\<close> method returns, \<open>None\<close> when the type has no such
    method;
  \<^item> the targets for which its \<^verbatim>\<open>Is(error) bool\<close> method returns true, the empty list
    when the type has no such method (the errors that package net makes of a cancelled
    or expired context answer so for \<^verbatim>\<open>context.Canceled\<close> and
    \<^verbatim>\<open>context.DeadlineExceeded\<close>);
  \<^item> what it unwraps to: no error when the type has no \<^verbatim>\<open>Unwrap\<close> method or the method
    returns nil, one error for \<^verbatim>\<open>Unwrap() error\<close>, and the errors in their order for
    \<^verbatim>\<open>Unwrap() []error\<close> (\<^verbatim>\<open>errors.Join\<close>, \<^verbatim>\<open>fmt.Errorf\<close> with several \<^verbatim>\<open>%w\<close>).
  An \<^verbatim>\<open>As\<close> method of an error type shows in the dynamic type the node is given.
\<close>

datatype error =
    nil
  | Value errval
  | Wrapper errtype "bool option" "errval list" "error list"

text \<open>
  \<^verbatim>\<open>Temporary()\<close> of the comparable values: \<^verbatim>\<open>context.DeadlineExceeded\<close> has the
  method and returns true, \<^verbatim>\<open>net.ErrClosed\<close> has it and returns false; values made by
  \<^verbatim>\<open>errors.New\<close> have no such method.
\<close>

fun value_temporary :: "errval \<Rightarrow> bool option" where
  "value_temporary context_DeadlineExceeded = Some True"
| "value_temporary net_ErrClosed = Some False"
| "value_temporary _ = None"

text \<open>
  \<^verbatim>\<open>errors.Is(err, target)\<close> for a non-nil comparable target, depth first over the tree
  of the error: the error is the target (\<^verbatim>\<open>==\<close>), or its \<^verbatim>\<open>Is\<close> method accepts the
  target, or one of the errors it unwraps to matches.
\<close>

fun errors_Is :: "error \<Rightarrow> errval \<Rightarrow> bool" where
  "errors_Is nil target = False"
| "errors_Is (Value v) target = (v = target)"
| "errors_Is (Wrapper ty tmp accepts inner) target =
     (target \<in> set accepts \<or> list_ex (\<lambda>e. errors_Is e target) inner)"

text \<open>
  The loop of \<^verbatim>\<open>errors.As\<close> over the errors of an \<^verbatim>\<open>Unwrap() []error\<close>: the first
  one in which the target is found decides.
\<close>

fun first_found :: "'a option list \<Rightarrow> 'a option" where
  "first_found [] = None"
| "first_found (None # rs) = first_found rs"
| "first_found (Some r # rs) = Some r"

text \<open>
  \<^verbatim>\<open>errors.As(err, &se)\<close> with \<^verbatim>\<open>se\<close> of type \<^verbatim>\<open>*os.SyscallError\<close>: whether the tree
  holds an error of that type (the classifier never reads \<^verbatim>\<open>se\<close>).
\<close>

fun errors_As_SyscallError :: "error \<Rightarrow> bool" where
  "errors_As_SyscallError nil = False"
| "errors_As_SyscallError (Value v) = False"
| "errors_As_SyscallError (Wrapper ty tmp accepts inner) =
     (if ty = SyscallError then True else list_ex errors_As_SyscallError inner)"

text \<open>
  \<^verbatim>\<open>errors.As(err, &ne)\<close> with \<^verbatim>\<open>ne\<close> of type \<^verbatim>\<open>*net.OpError\<close>: the \<^verbatim>\<open>Op\<close> field of
  the first such error, depth first, \<open>None\<close> when \<^verbatim>\<open>errors.As\<close> returns false.
\<close>

fun errors_As_OpError :: "error \<Rightarrow> string option" where
  "errors_As_OpError nil = None"
| "errors_As_OpError (Value v) = None"
| "errors_As_OpError (Wrapper ty tmp accepts inner) =
     (case ty of OpError op \<Rightarrow> Some op | _ \<Rightarrow> first_found (map errors_As_OpError inner))"

text \<open>
  \<^verbatim>\<open>errors.As(err, &tempErr)\<close> with \<^verbatim>\<open>tempErr\<close> of type
  \<^verbatim>\<open>interface{ Temporary() bool }\<close>: what \<^verbatim>\<open>Temporary()\<close> of the first error, depth
  first, that has the method returns, \<open>None\<close> when \<^verbatim>\<open>errors.As\<close> returns false.
\<close>

fun errors_As_Temporary :: "error \<Rightarrow> bool option" where
  "errors_As_Temporary nil = None"
| "errors_As_Temporary (Value v) = value_temporary v"
| "errors_As_Temporary (Wrapper ty tmp accepts inner) =
     (case tmp of Some t \<Rightarrow> Some t | None \<Rightarrow> first_found (map errors_As_Temporary inner))"

section \<open>The classifier\<close>

text \<open>
  Modelled from the spec: \<^verbatim>\<open>isNetClosedErr\<close>, which errors.go calls and another file of
  the package declares. The specification (4.2, step 3) says of it that the chain contains
  the "network connection closed" error.
\<close>

definition isNetClosedErr :: "error \<Rightarrow> bool" where
  "isNetClosedErr err = errors_Is err net_ErrClosed"

definition isDialErr :: "error \<Rightarrow> bool" where
  "isDialErr err =
     (case errors_As_OpError err of None \<Rightarrow> False | Some op \<Rightarrow> op = ''dial'')"

definition isRetriableBrokerErr :: "error \<Rightarrow> bool" where
  "isRetriableBrokerErr err =
     (if err = nil then False
      else if errors_As_SyscallError err then \<not> isDialErr err
      else if isNetClosedErr err \<or> errors_Is err io_EOF then True
      else if errors_Is err errProducerIDLoadFail then True
      else if errors_Is err errChosenBrokerDead then True
      else if errors_Is err errSaslReauthLoop then True
      else if errors_Is err errCorrelationIDMismatch then True
      else (case errors_As_Temporary err of Some t \<Rightarrow> t | None \<Rightarrow> False))"

definition isSkippableBrokerErr :: "error \<Rightarrow> bool" where
  "isSkippableBrokerErr err =
     (if errors_Is err errUnknownBroker then True
      else if errors_As_OpError err \<noteq> None
              \<and> \<not> errors_Is err context_Canceled
              \<and> \<not> errors_Is err context_DeadlineExceeded then True
      else False)"

section \<open>Version tables of pkg/kversion\<close>

text \<open>
  kversion_test.go exercises the type \<^verbatim>\<open>Versions\<close> and its methods, which another file
  of the package declares. The definitions of this section follow the specification
  (sections 3 and 4.1) and carry the names the test uses. A table is the slice
  \<^verbatim>\<open>k2v\<close>: the entry at index \<open>k\<close> is the max version of request key \<open>k\<close>, and \<open>- 1\<close>
  says that the key is not supported.
\<close>

type_synonym versions = "int list"

text \<open>
  Modelled from the spec: the trimming that \<^verbatim>\<open>Equal\<close> starts with ("trim trailing
  -1s"); the function of the package that does it is missing.
\<close>

definition trim :: "versions \<Rightarrow> versions" where
  "trim k2v = rev (dropWhile (\<lambda>v. v = - 1) (rev k2v))"

text \<open>
  Modelled from the spec: reading the entry of a key; a key past the end of the dense
  sequence has no entry and so is not supported. The accessor of the package is missing.
\<close>

definition lookup :: "versions \<Rightarrow> nat \<Rightarrow> int" where
  "lookup k2v k = (if k < length k2v then k2v ! k else - 1)"

text \<open>
  Modelled from the spec: \<^verbatim>\<open>SetMaxKeyVersion\<close> (\<open>set_max(key, version)\<close>), missing from
  the sources. It stores the version at the key, \<open>- 1\<close> unsetting it; the sequence is
  dense, so it grows by unsupported entries up to the key (the test sets the key
  \<^verbatim>\<open>len(k2v)+1\<close>).
\<close>

definition SetMaxKeyVersion :: "nat \<Rightarrow> int \<Rightarrow> versions \<Rightarrow> versions" where
  "SetMaxKeyVersion k v k2v = (k2v @ replicate (Suc k - length k2v) (- 1))[k := v]"

text \<open>
  Modelled from the spec: \<^verbatim>\<open>Equal\<close>, missing from the sources: "Trim trailing -1s from
  both sides, then element-wise compare."
\<close>

definition Equal :: "versions \<Rightarrow> versions \<Rightarrow> bool" where
  "Equal l r = (trim l = trim r)"

section \<open>Facts about errors\<close>

lemma errors_Is_not_nil: "errors_Is e a \<Longrightarrow> e \<noteq> nil"
  by auto

lemma errors_As_SyscallError_not_nil: "errors_As_SyscallError e \<Longrightarrow> e \<noteq> nil"
  by auto



text \<open>
  What package net returns when a dial is interrupted by the caller's context: a dial
  \<^verbatim>\<open>*net.OpError\<close> around an error whose \<^verbatim>\<open>Is\<close> method accepts \<^verbatim>\<open>context.Canceled\<close>,
  or around a timeout error (temporary) whose \<^verbatim>\<open>Is\<close> method accepts
  \<^verbatim>\<open>context.DeadlineExceeded\<close>. Neither is skippable, and the second is retriable.
\<close>

lemma dial_under_context:
  "\<not> isSkippableBrokerErr (Wrapper (OpError ''dial'') (Some False) []
        [Wrapper OtherError None [context_Canceled] []])
   \<and> \<not> isSkippableBrokerErr (Wrapper (OpError ''dial'') (Some True) []
        [Wrapper OtherError (Some True) [context_DeadlineExceeded] []])
   \<and> isRetriableBrokerErr (Wrapper (OpError ''dial'') (Some True) []
        [Wrapper OtherError (Some True) [context_DeadlineExceeded] []])"
  by (simp add: isSkippableBrokerErr_def isRetriableBrokerErr_def isNetClosedErr_def)

section \<open>The nil error\<close>

text \<open>
  C6: applied to the nil error, the retriability classifier returns false.
\<close>

theorem retriable_nil: "isRetriableBrokerErr nil = False"
  by (simp add: isRetriableBrokerErr_def)

text \<open>
  C9: applied to the nil error, the skippability classifier returns false.
\<close>

theorem skippable_nil: "isSkippableBrokerErr nil = False"
  by (simp add: isSkippableBrokerErr_def)

section \<open>Dial errors\<close>




section \<open>Context errors\<close>

text \<open>
  C2 as stated ("no error that holds the context cancellation or deadline-exceeded error
  is skippable") fails on the code: \<^verbatim>\<open>isSkippableBrokerErr\<close> tests \<^verbatim>\<open>errUnknownBroker\<close>
  before its context guard. \<^verbatim>\<open>errors.Join(errUnknownBroker, context.Canceled)\<close> holds
  the cancellation error and is skippable, and so is \<^verbatim>\<open>context.Canceled\<close> wrapped by an
  error whose \<^verbatim>\<open>Is\<close> method accepts \<^verbatim>\<open>errUnknownBroker\<close>.
\<close>

theorem context_error_counterexample:
  "errors_Is (Wrapper OtherError None [] [Value errUnknownBroker, Value context_Canceled])
       context_Canceled
   \<and> isSkippableBrokerErr
       (Wrapper OtherError None [] [Value errUnknownBroker, Value context_Canceled])
   \<and> errors_Is (Wrapper OtherError None [errUnknownBroker] [Value context_Canceled])
       context_Canceled
   \<and> isSkippableBrokerErr
       (Wrapper OtherError None [errUnknownBroker] [Value context_Canceled])"
  by (simp add: isSkippableBrokerErr_def)

text \<open>
  C2, amended: an error that \<^verbatim>\<open>errors.Is\<close> matches with \<^verbatim>\<open>context.Canceled\<close> or
  \<^verbatim>\<open>context.DeadlineExceeded\<close> is skippable exactly when \<^verbatim>\<open>errors.Is\<close> matches it
  with \<^verbatim>\<open>errUnknownBroker\<close> too; every other such error, whether or not it holds a
  network operation error, is not skippable.
\<close>

theorem context_error_skippable_iff:
  assumes "errors_Is e context_Canceled \<or> errors_Is e context_DeadlineExceeded"
  shows "isSkippableBrokerErr e \<longleftrightarrow> errors_Is e errUnknownBroker"
  using assms by (auto simp: isSkippableBrokerErr_def)

text \<open>
  The amended C2 at the caller's deadline-exceeded wrapped in a network operation error
  (scenario 4 of the specification): not skippable.
\<close>

theorem context_error_skippable_iff_witness:
  "errors_Is (Wrapper (OpError ''read'') (Some True) [] [Value context_DeadlineExceeded])
       context_DeadlineExceeded
   \<and> \<not> errors_Is (Wrapper (OpError ''read'') (Some True) [] [Value context_DeadlineExceeded])
       errUnknownBroker
   \<and> \<not> isSkippableBrokerErr
       (Wrapper (OpError ''read'') (Some True) [] [Value context_DeadlineExceeded])"
  using context_error_skippable_iff
    [of "Wrapper (OpError ''read'') (Some True) [] [Value context_DeadlineExceeded]"]
  by simp

section \<open>Syscall errors and the sentinels\<close>

text \<open>
  C3: an error whose chain holds an \<^verbatim>\<open>*os.SyscallError\<close> and which is not a dial error
  is retriable on the same broker, whatever its \<^verbatim>\<open>Temporary()\<close> says: the syscall test
  comes before the temporary test.
\<close>

theorem syscall_error_retriable:
  assumes "errors_As_SyscallError e" and "\<not> isDialErr e"
  shows "isRetriableBrokerErr e"
  using assms errors_As_SyscallError_not_nil [of e]
  by (simp add: isRetriableBrokerErr_def)

text \<open>
  C3 at a connection reset by the peer during a read: the network operation error
  answers \<^verbatim>\<open>Temporary()\<close> with false, and the error is retriable all the same.
\<close>

theorem syscall_error_retriable_witness:
  "errors_As_SyscallError (Wrapper (OpError ''read'') (Some False) []
       [Wrapper SyscallError None [] [Wrapper OtherError (Some False) [] []]])
   \<and> \<not> isDialErr (Wrapper (OpError ''read'') (Some False) []
       [Wrapper SyscallError None [] [Wrapper OtherError (Some False) [] []]])
   \<and> errors_As_Temporary (Wrapper (OpError ''read'') (Some False) []
       [Wrapper SyscallError None [] [Wrapper OtherError (Some False) [] []]]) = Some False
   \<and> isRetriableBrokerErr (Wrapper (OpError ''read'') (Some False) []
       [Wrapper SyscallError None [] [Wrapper OtherError (Some False) [] []]])"
  using syscall_error_retriable [of "Wrapper (OpError ''read'') (Some False) []
       [Wrapper SyscallError None [] [Wrapper OtherError (Some False) [] []]]"]
  by (simp add: isDialErr_def)

text \<open>
  C4: an error whose chain holds \<^verbatim>\<open>errProducerIDLoadFail\<close>, \<^verbatim>\<open>errChosenBrokerDead\<close>,
  \<^verbatim>\<open>errSaslReauthLoop\<close> or \<^verbatim>\<open>errCorrelationIDMismatch\<close>, and no syscall-level error,
  is retriable on the same broker.
\<close>

theorem sentinel_retriable:
  assumes "errors_Is e errProducerIDLoadFail \<or> errors_Is e errChosenBrokerDead
           \<or> errors_Is e errSaslReauthLoop \<or> errors_Is e errCorrelationIDMismatch"
    and "\<not> errors_As_SyscallError e"
  shows "isRetriableBrokerErr e"
proof -
  from assms(1) have "e \<noteq> nil"
    by auto
  with assms show ?thesis
    by (auto simp: isRetriableBrokerErr_def)
qed

text \<open>
  C4 at \<^verbatim>\<open>errChosenBrokerDead\<close> wrapped once by an error type without \<^verbatim>\<open>Temporary()\<close>.
\<close>

theorem sentinel_retriable_witness:
  "(errors_Is (Wrapper OtherError None [] [Value errChosenBrokerDead]) errProducerIDLoadFail
    \<or> errors_Is (Wrapper OtherError None [] [Value errChosenBrokerDead]) errChosenBrokerDead
    \<or> errors_Is (Wrapper OtherError None [] [Value errChosenBrokerDead]) errSaslReauthLoop
    \<or> errors_Is (Wrapper OtherError None [] [Value errChosenBrokerDead])
         errCorrelationIDMismatch)
   \<and> \<not> errors_As_SyscallError (Wrapper OtherError None [] [Value errChosenBrokerDead])
   \<and> isRetriableBrokerErr (Wrapper OtherError None [] [Value errChosenBrokerDead])"
  using sentinel_retriable [of "Wrapper OtherError None [] [Value errChosenBrokerDead]"]
  by simp

text \<open>
  C5: \<^verbatim>\<open>errBrokerTooOld\<close> and \<^verbatim>\<open>errUnknownRequestKey\<close> are not retriable on the same
  broker.
\<close>

theorem too_old_unknown_key_not_retriable:
  "isRetriableBrokerErr (Value errBrokerTooOld) = False
   \<and> isRetriableBrokerErr (Value errUnknownRequestKey) = False"
  by (simp add: isRetriableBrokerErr_def isNetClosedErr_def)

text \<open>
  C10: \<^verbatim>\<open>ErrClientClosed\<close> is neither retriable on the same broker nor skippable to
  another broker.
\<close>

theorem client_closed_not_retriable_not_skippable:
  "isRetriableBrokerErr (Value ErrClientClosed) = False
   \<and> isSkippableBrokerErr (Value ErrClientClosed) = False"
  by (simp add: isRetriableBrokerErr_def isNetClosedErr_def isSkippableBrokerErr_def)

section \<open>Facts about version tables\<close>

lemma dropWhile_replicate: "P x \<Longrightarrow> dropWhile P (replicate n x @ ys) = dropWhile P ys"
  by (induction n) simp_all

lemma trim_append_unset: "trim (k2v @ replicate n (- 1)) = trim k2v"
  by (simp add: trim_def dropWhile_replicate)

lemma SetMaxKeyVersion_unset_beyond:
  "length k2v \<le> k \<Longrightarrow>
   SetMaxKeyVersion k (- 1) k2v = k2v @ replicate (Suc k - length k2v) (- 1)"
  unfolding SetMaxKeyVersion_def
  by (simp add: list_eq_iff_nth_eq nth_append nth_list_update)

lemma lookup_trim: "lookup (trim k2v) k = lookup k2v k"
proof (induction k2v rule: rev_induct)
  case Nil
  then show ?case by (simp add: trim_def)
next
  case (snoc v vs)
  then show ?case
    by (auto simp: trim_def lookup_def nth_append split: if_splits)
qed

lemma last_trim: "trim k2v \<noteq> [] \<Longrightarrow> last (trim k2v) \<noteq> - 1"
  unfolding trim_def using hd_dropWhile [of "\<lambda>v. v = - 1" "rev k2v"]
  by (simp add: last_rev)

lemma lookup_last: "xs \<noteq> [] \<Longrightarrow> lookup xs (length xs - 1) = last xs"
  by (simp add: lookup_def last_conv_nth)

lemma length_le_of_lookup:
  assumes "ys \<noteq> [] \<Longrightarrow> last ys \<noteq> - 1" and "\<forall>k. lookup xs k = lookup ys k"
  shows "length ys \<le> length xs"
proof (rule ccontr)
  assume "\<not> length ys \<le> length xs"
  then have less: "length xs < length ys" and ne: "ys \<noteq> []"
    by auto
  from less have "\<not> length ys - 1 < length xs"
    by arith
  then have "lookup xs (length ys - 1) = - 1"
    unfolding lookup_def by simp
  moreover from ne have "lookup ys (length ys - 1) = last ys"
    by (rule lookup_last)
  ultimately show False
    using assms ne by metis
qed

lemma eq_of_lookup:
  assumes "xs \<noteq> [] \<Longrightarrow> last xs \<noteq> - 1" and "ys \<noteq> [] \<Longrightarrow> last ys \<noteq> - 1"
    and "\<forall>k. lookup xs k = lookup ys k"
  shows "xs = ys"
proof (rule nth_equalityI)
  show len: "length xs = length ys"
    using length_le_of_lookup [of ys xs] length_le_of_lookup [of xs ys] assms
    by (simp add: le_antisym)
  show "xs ! i = ys ! i" if "i < length xs" for i
    using that len assms(3) by (auto simp: lookup_def dest: spec [of _ i])
qed

lemma Equal_iff_lookup: "Equal l r \<longleftrightarrow> (\<forall>k. lookup l k = lookup r k)"
proof
  assume "Equal l r"
  then show "\<forall>k. lookup l k = lookup r k"
    by (metis Equal_def lookup_trim)
next
  assume "\<forall>k. lookup l k = lookup r k"
  then have "\<forall>k. lookup (trim l) k = lookup (trim r) k"
    by (simp add: lookup_trim)
  then have "trim l = trim r"
    using last_trim [of l] last_trim [of r] by (intro eq_of_lookup) auto
  then show "Equal l r"
    by (simp add: Equal_def)
qed

lemma lookup_SetMaxKeyVersion:
  "lookup (SetMaxKeyVersion k v k2v) j = (if j = k then v else lookup k2v j)"
  by (auto simp: lookup_def SetMaxKeyVersion_def nth_list_update nth_append)

section \<open>Equality of version tables\<close>

text \<open>
  C7: \<^verbatim>\<open>Equal\<close> trims the trailing \<open>- 1\<close> entries of both tables and compares what is
  left entry by entry: two tables are equal exactly when the trimmed tables have the same
  length and the same entries, which is exactly when every key has the same entry in
  both, a key past the end of a table counting as \<open>- 1\<close>. So tables of different lengths
  with the same trimmed prefix are equal, and tables that differ at a key are not.
  Equality is symmetric. \<^verbatim>\<open>SetMaxKeyVersion\<close> with \<open>- 1\<close> at a key past the end of a
  table, which appends trailing \<open>- 1\<close> entries, gives a table equal to the old one and
  equal to exactly the tables the old one is equal to; at a key that the other table
  supports it gives a table that is not equal to the other one.
\<close>

theorem Equal_trailing_unset:
  "(Equal l r \<longleftrightarrow>
      length (trim l) = length (trim r) \<and> (\<forall>i < length (trim l). trim l ! i = trim r ! i))
   \<and> (Equal l r \<longleftrightarrow> (\<forall>k. lookup l k = lookup r k))
   \<and> Equal (l @ replicate m (- 1)) (l @ replicate n (- 1))
   \<and> Equal l r = Equal r l
   \<and> (length l \<le> k \<longrightarrow>
        Equal (SetMaxKeyVersion k (- 1) l) l
        \<and> Equal (SetMaxKeyVersion k (- 1) l) r = Equal l r
        \<and> Equal r (SetMaxKeyVersion k (- 1) l) = Equal r l)
   \<and> (0 \<le> lookup r j \<longrightarrow> \<not> Equal (SetMaxKeyVersion j (- 1) l) r)"
proof (intro conjI impI)
  show "Equal l r \<longleftrightarrow>
      length (trim l) = length (trim r) \<and> (\<forall>i < length (trim l). trim l ! i = trim r ! i)"
    by (simp add: Equal_def list_eq_iff_nth_eq)
  show "Equal l r \<longleftrightarrow> (\<forall>k. lookup l k = lookup r k)"
    by (rule Equal_iff_lookup)
  show "Equal (l @ replicate m (- 1)) (l @ replicate n (- 1))"
    by (simp add: Equal_def trim_append_unset)
  show "Equal l r = Equal r l"
    by (auto simp: Equal_def)
next
  assume "length l \<le> k"
  then have unset: "trim (SetMaxKeyVersion k (- 1) l) = trim l"
    by (simp add: SetMaxKeyVersion_unset_beyond trim_append_unset)
  show "Equal (SetMaxKeyVersion k (- 1) l) l"
    by (simp add: Equal_def unset)
  show "Equal (SetMaxKeyVersion k (- 1) l) r = Equal l r"
    by (simp add: Equal_def unset)
  show "Equal r (SetMaxKeyVersion k (- 1) l) = Equal r l"
    by (simp add: Equal_def unset)
next
  assume supported: "0 \<le> lookup r j"
  show "\<not> Equal (SetMaxKeyVersion j (- 1) l) r"
  proof
    assume "Equal (SetMaxKeyVersion j (- 1) l) r"
    then have "lookup (SetMaxKeyVersion j (- 1) l) j = lookup r j"
      by (simp add: Equal_iff_lookup)
    with supported show False
      by (simp add: lookup_SetMaxKeyVersion)
  qed
qed

text \<open>
  C7 at a table of three keys against the same table with two trailing unset keys: they
  are equal although their lengths differ; unsetting key 4 of the former (its length
  plus one, as in the test) keeps them equal; unsetting key 0 of the former makes them
  unequal, as does a \<open>- 1\<close> that is not trailing.
\<close>

theorem Equal_trailing_unset_witness:
  "trim [0, 1, 2] = trim [0, 1, 2, - 1, - 1]
   \<and> length [0, 1, 2 :: int] \<noteq> length [0, 1, 2, - 1, - 1 :: int]
   \<and> Equal [0, 1, 2] [0, 1, 2, - 1, - 1]
   \<and> Equal [0, 1, 2, - 1, - 1] [0, 1, 2]
   \<and> length [0, 1, 2 :: int] \<le> 4
   \<and> SetMaxKeyVersion 4 (- 1) [0, 1, 2] = [0, 1, 2, - 1, - 1]
   \<and> Equal (SetMaxKeyVersion 4 (- 1) [0, 1, 2]) [0, 1, 2]
   \<and> Equal (SetMaxKeyVersion 4 (- 1) [0, 1, 2]) [0, 1, 2, - 1, - 1]
   \<and> 0 \<le> lookup [0, 1, 2, - 1, - 1] 0
   \<and> SetMaxKeyVersion 0 (- 1) [0, 1, 2] = [- 1, 1, 2]
   \<and> \<not> Equal (SetMaxKeyVersion 0 (- 1) [0, 1, 2]) [0, 1, 2, - 1, - 1]"
proof -
  have unset: "SetMaxKeyVersion 4 (- 1) [0, 1, 2] = [0, 1, 2, - 1, - 1]"
    "SetMaxKeyVersion 0 (- 1) [0, 1, 2] = [- 1, 1, 2]"
    by (simp_all add: SetMaxKeyVersion_def eval_nat_numeral)
  have supported: "0 \<le> lookup [0, 1, 2, - 1, - 1] 0"
    by (simp add: lookup_def)
  show ?thesis
    using Equal_trailing_unset [of "[0, 1, 2]" "[0, 1, 2, - 1, - 1]" 0 0 4 0] supported
    by (simp add: trim_def unset)
qed

text \<open>
  The checks of \<^verbatim>\<open>TestEqual\<close> that expect inequality, at small tables: a key unset on
  one side only, a \<open>- 1\<close> between supported keys, and a table against one with two more
  supported keys, which become equal once the two keys are unset.
\<close>

lemma Equal_examples:
  "\<not> Equal [- 1, 1, 2] [0, 1, 2]
   \<and> Equal [- 1, 1, 2, - 1] [- 1, 1, 2]
   \<and> \<not> Equal [0, - 1, 1] [0, 1]
   \<and> \<not> Equal [0, 0] [0, 0, 0, 0]
   \<and> Equal [0, 0] [0, 0, - 1, - 1]
   \<and> Equal [0, 0, - 1, - 1] [0, 0]"
  by (simp add: Equal_def trim_def)

end
